theory Spec2Isabelle
  imports Main "HOL-Library.Sublist"
begin

section \<open>Ryzen Stabilizator: the command dispatcher of main.go\<close>

text \<open>
  The program checks that it runs as root on an AMD family 17h processor, then toggles
  C6 C-state, processor boosting and ASLR as the command line or a TOML configuration
  file asks, and reports the state of the three features.

  Everything \<open>main.go\<close> imports is a parameter of the model, collected in the record
  \<open>env\<close>: the processor identity (\<open>cpuid\<close>), the effective user id (\<open>os\<close>), the parsed
  command line (\<open>flag\<close>), the file system (\<open>ioutil\<close>), the TOML decoder, the Unicode
  case mapping behind \<open>strings.ToLower\<close>, the \<open>%q\<close> verb of \<open>fmt\<close>, and the nine operations of the packages \<open>c6\<close>, \<open>boosting\<close>
  and \<open>aslr\<close>. Those operations act on a hardware state of an arbitrary type \<open>'hw\<close> (the
  per-core registers and the sysctl value), which the model threads through every call.
  What the program does is recorded as a trace of events: every piece of text written to
  standard output and every call of a feature operation, in the order they happen.
\<close>

subsection \<open>Constants of the program\<close>

definition program :: string where
  "program = ''Ryzen Stabilizator Tabajara''"

definition copyright :: string where
  "copyright = ''Copyright (C) 2018 Sergio Correia <sergio@correia.cc>''"

text \<open>The family number for Zen processors.\<close>

definition amdZenFamily :: int where
  "amdZenFamily = 0x17"

definition version :: string where
  "version = ''unspecified/git version''"

subsection \<open>Data\<close>

text \<open>A Go \<open>error\<close> is represented by the text of its \<open>Error()\<close> method, which is all that
  the program ever uses of it (\<open>%v\<close>); a nil error is \<open>None\<close>.\<close>

type_synonym error = string

text \<open>The vendors that \<open>cpuid.Vendor\<close> enumerates.\<close>

datatype vendor = Other | Intel | AMD | VIA | Transmeta | NSC | KVM | MSVM | VMware | XenHVM

text \<open>\<open>rsSettings\<close> is the struct the configuration file is decoded into.\<close>

record rsSettings =
  C6 :: string
  Boosting :: string
  ASLR :: string

text \<open>The values of the seven flags once \<open>flag.Parse\<close> has returned.\<close>

record flags =
  configFilePtr :: string
  enableC6Ptr :: bool
  disableC6Ptr :: bool
  enableBoostingPtr :: bool
  disableBoostingPtr :: bool
  enableASLRPtr :: bool
  disableASLRPtr :: bool

datatype feature = FeatC6 | FeatBoosting | FeatASLR

text \<open>The three operations each feature package exports: \<open>Enable()\<close>, \<open>Disable()\<close> and the
  status query \<open>Enabled()\<close>.\<close>

datatype action = Enable | Disable | Enabled

datatype event = Printed string | Invoked feature action

text \<open>
  The environment. \<open>flag_Parse\<close> is \<open>None\<close> when the \<open>flag\<close> package rejects the command
  line (or is asked for help) and terminates the process itself. \<open>toml_Decode\<close> returns the
  decoder's metadata (of an arbitrary type \<open>'md\<close>) next to the filled struct; the metadata
  holds what the decoder knows about the keys of the document. \<open>unicode_ToLower\<close> is the
  mapping of \<open>unicode.ToLower\<close> over a string that is not pure ASCII.
\<close>

record ('hw, 'md) env =
  cpuid_VendorID :: vendor
  cpuid_Family :: int
  os_Geteuid :: int
  flag_Parse :: "flags option"
  ioutil_ReadFile :: "string \<Rightarrow> error + string"
  toml_Decode :: "string \<Rightarrow> error + ('md \<times> rsSettings)"
  unicode_ToLower :: "string \<Rightarrow> string"
  fmt_q :: "string \<Rightarrow> string"
  c6_Enable :: "'hw \<Rightarrow> error option \<times> 'hw"
  c6_Disable :: "'hw \<Rightarrow> error option \<times> 'hw"
  c6_Enabled :: "'hw \<Rightarrow> (bool \<times> error option) \<times> 'hw"
  boosting_Enable :: "'hw \<Rightarrow> error option \<times> 'hw"
  boosting_Disable :: "'hw \<Rightarrow> error option \<times> 'hw"
  boosting_Enabled :: "'hw \<Rightarrow> (bool \<times> error option) \<times> 'hw"
  aslr_Enable :: "'hw \<Rightarrow> error option \<times> 'hw"
  aslr_Disable :: "'hw \<Rightarrow> error option \<times> 'hw"
  aslr_Enabled :: "'hw \<Rightarrow> (bool \<times> error option) \<times> 'hw"

text \<open>The state of a run: the hardware and what has happened so far.\<close>

record 'hw world =
  hw :: 'hw
  trace :: "event list"

subsection \<open>Printing and calling\<close>

definition nl :: string where
  "nl = [CHR 0x0A]"

definition Printf :: "string \<Rightarrow> 'hw world \<Rightarrow> 'hw world" where
  "Printf s w = w\<lparr>trace := trace w @ [Printed s]\<rparr>"

definition Println :: "string \<Rightarrow> 'hw world \<Rightarrow> 'hw world" where
  "Println s w = Printf (s @ nl) w"

text \<open>The verb \<open>%d\<close> on a Go \<open>int\<close>: decimal digits, with a minus sign when negative.\<close>

definition digit :: "nat \<Rightarrow> char" where
  "digit n = ''0123456789'' ! n"

fun decimal :: "nat \<Rightarrow> string" where
  "decimal n = (if n < 10 then [digit n] else decimal (n div 10) @ [digit (n mod 10)])"

declare decimal.simps [simp del]

definition fmt_d :: "int \<Rightarrow> string" where
  "fmt_d i = (if i < 0 then ''-'' @ decimal (nat (- i)) else decimal (nat i))"

text \<open>
  \<open>strings.ToLower\<close>: a string of ASCII bytes only has its letters \<open>A\<close> to \<open>Z\<close> replaced
  by \<open>a\<close> to \<open>z\<close>; any other string goes through the Unicode mapping.
\<close>

definition isASCII :: "string \<Rightarrow> bool" where
  "isASCII s = list_all (\<lambda>c. (of_char c :: nat) < 128) s"

definition ascii_lower :: "char \<Rightarrow> char" where
  "ascii_lower c =
     (let n = (of_char c :: nat) in if 65 \<le> n \<and> n \<le> 90 then char_of (n + 32) else c)"

definition strings_ToLower :: "('hw, 'md) env \<Rightarrow> string \<Rightarrow> string" where
  "strings_ToLower env s = (if isASCII s then map ascii_lower s else unicode_ToLower env s)"

text \<open>A call of a feature operation runs it on the hardware and leaves an event.\<close>

definition invoke ::
  "feature \<Rightarrow> action \<Rightarrow> ('hw \<Rightarrow> 'r \<times> 'hw) \<Rightarrow> 'hw world \<Rightarrow> 'r \<times> 'hw world" where
  "invoke f a oper w =
     (let (r, h) = oper (hw w)
      in (r, w\<lparr>hw := h, trace := trace w @ [Invoked f a]\<rparr>))"

subsection \<open>The gate\<close>

definition sanityCheck :: "('hw, 'md) env \<Rightarrow> error option" where
  "sanityCheck env =
     (if cpuid_VendorID env \<noteq> AMD then
        Some ''this is not an AMD processor''
      else if cpuid_Family env \<noteq> amdZenFamily then
        Some (''wrong family of AMD processors; expected 23 (17h), got ''
              @ fmt_d (cpuid_Family env))
      else if os_Geteuid env \<noteq> 0 then
        Some ''you need to be root to use this program''
      else None)"

subsection \<open>The six mutating actions\<close>

definition disableC6 :: "('hw, 'md) env \<Rightarrow> 'hw world \<Rightarrow> 'hw world" where
  "disableC6 env w0 =
     (let w1 = Printf ''Disabling C6 C-state:   '' w0;
          (err, w2) = invoke FeatC6 Disable (c6_Disable env) w1
      in case err of
           Some e \<Rightarrow> Printf (''oops: '' @ e @ nl) w2
         | None \<Rightarrow> Println ''SUCCESS'' w2)"

definition enableC6 :: "('hw, 'md) env \<Rightarrow> 'hw world \<Rightarrow> 'hw world" where
  "enableC6 env w0 =
     (let w1 = Printf ''Enabling C6 C-state:   '' w0;
          (err, w2) = invoke FeatC6 Enable (c6_Enable env) w1
      in case err of
           Some e \<Rightarrow> Printf (''oops: '' @ e @ nl) w2
         | None \<Rightarrow> Println ''SUCCESS'' w2)"

definition disableBoosting :: "('hw, 'md) env \<Rightarrow> 'hw world \<Rightarrow> 'hw world" where
  "disableBoosting env w0 =
     (let w1 = Printf ''Disabling processor boosting:   '' w0;
          (err, w2) = invoke FeatBoosting Disable (boosting_Disable env) w1
      in case err of
           Some e \<Rightarrow> Printf (''oops: '' @ e @ nl) w2
         | None \<Rightarrow> Println ''SUCCESS'' w2)"

definition enableBoosting :: "('hw, 'md) env \<Rightarrow> 'hw world \<Rightarrow> 'hw world" where
  "enableBoosting env w0 =
     (let w1 = Printf ''Enabling processor boosting:   '' w0;
          (err, w2) = invoke FeatBoosting Enable (boosting_Enable env) w1
      in case err of
           Some e \<Rightarrow> Printf (''oops: '' @ e @ nl) w2
         | None \<Rightarrow> Println ''SUCCESS'' w2)"

definition disableASLR :: "('hw, 'md) env \<Rightarrow> 'hw world \<Rightarrow> 'hw world" where
  "disableASLR env w0 =
     (let w1 = Printf ''Disabling address space layout randomization (ASLR):   '' w0;
          (err, w2) = invoke FeatASLR Disable (aslr_Disable env) w1
      in case err of
           Some e \<Rightarrow> Printf (''oops: '' @ e @ nl) w2
         | None \<Rightarrow> Println ''SUCCESS'' w2)"

definition enableASLR :: "('hw, 'md) env \<Rightarrow> 'hw world \<Rightarrow> 'hw world" where
  "enableASLR env w0 =
     (let w1 = Printf ''Enabling address space layout randomization (ASLR):   '' w0;
          (err, w2) = invoke FeatASLR Enable (aslr_Enable env) w1
      in case err of
           Some e \<Rightarrow> Printf (''oops: '' @ e @ nl) w2
         | None \<Rightarrow> Println ''SUCCESS'' w2)"

subsection \<open>The status report\<close>

definition showStatus :: "('hw, 'md) env \<Rightarrow> 'hw world \<Rightarrow> 'hw world" where
  "showStatus env w0 =
     (let ((c6Enabled, err), w1) = invoke FeatC6 Enabled (c6_Enabled env) w0;
          c6Status =
            (case err of
               None \<Rightarrow> if c6Enabled then ''C6 C-state is ENABLED.''
                       else ''C6 C-state is DISABLED.''
             | Some e \<Rightarrow> ''Error while obtaining status of C6 C-state: '' @ e);
          w2 = Printf (nl @ c6Status @ nl) w1;
          ((aslrEnabled, err), w3) = invoke FeatASLR Enabled (aslr_Enabled env) w2;
          aslrStatus =
            (case err of
               None \<Rightarrow> if aslrEnabled then ''ASLR is ENABLED.'' else ''ASLR is DISABLED.''
             | Some e \<Rightarrow> ''Error while obtaining status of ASLR: '' @ e);
          w4 = Println aslrStatus w3;
          ((boostingEnabled, err), w5) =
            invoke FeatBoosting Enabled (boosting_Enabled env) w4;
          boostingStatus =
            (case err of
               None \<Rightarrow> if boostingEnabled then ''Processor boosting is ENABLED.''
                       else ''Processor boosting is DISABLED.''
             | Some e \<Rightarrow> ''Error while obtaining status of processor boosting: '' @ e)
      in Println boostingStatus w5)"

subsection \<open>The configuration file\<close>

definition handleConfigurationFile ::
  "('hw, 'md) env \<Rightarrow> string \<Rightarrow> 'hw world \<Rightarrow> 'hw world" where
  "handleConfigurationFile env configFile w0 =
     (case ioutil_ReadFile env configFile of
        Inl err \<Rightarrow>
          Printf (''Error: unable to read contents of config file '' @ fmt_q env configFile
                  @ '': '' @ err @ ''.'' @ nl) w0
      | Inr buf \<Rightarrow>
          (case toml_Decode env buf of
             Inl err \<Rightarrow>
               Printf (''Error: problem parsing config file '' @ fmt_q env configFile
                       @ '': '' @ err @ ''.'' @ nl @ nl) w0
           | Inr (md, settings) \<Rightarrow>
               (let w1 = Printf (''Config file: '' @ fmt_q env configFile @ nl) w0;
                    w2 = (let v = strings_ToLower env (Boosting settings)
                          in if v = ''enable'' then enableBoosting env w1
                             else if v = ''disable'' then disableBoosting env w1
                             else w1);
                    w3 = (let v = strings_ToLower env (C6 settings)
                          in if v = ''enable'' then enableC6 env w2
                             else if v = ''disable'' then disableC6 env w2
                             else w2);
                    w4 = (let v = strings_ToLower env (ASLR settings)
                          in if v = ''enable'' then enableASLR env w3
                             else if v = ''disable'' then disableASLR env w3
                             else w3)
                in showStatus env w4)))"

subsection \<open>The program\<close>

definition banner :: string where
  "banner = program @ '' '' @ version @ nl @ copyright @ nl @ nl"

text \<open>
  \<open>main\<close> starts from an empty trace on the hardware \<open>h0\<close>. The gate comes before the
  flags are even declared. When \<open>flag.Parse\<close> ends the process, the run is over with the
  banner as its only output on standard output.
\<close>

definition main :: "('hw, 'md) env \<Rightarrow> 'hw \<Rightarrow> 'hw world" where
  "main env h0 =
     (let w0 = Printf banner \<lparr>hw = h0, trace = []\<rparr>
      in case sanityCheck env of
           Some err \<Rightarrow> Printf (''Error: '' @ err @ ''.'' @ nl) w0
         | None \<Rightarrow>
             (case flag_Parse env of
                None \<Rightarrow> w0
              | Some fl \<Rightarrow>
                  if configFilePtr fl \<noteq> '''' then
                    handleConfigurationFile env (configFilePtr fl) w0
                  else
                    (let w1 = (if disableC6Ptr fl then disableC6 env w0
                               else if enableC6Ptr fl then enableC6 env w0
                               else w0);
                         w2 = (if disableBoostingPtr fl then disableBoosting env w1
                               else if enableBoostingPtr fl then enableBoosting env w1
                               else w1);
                         w3 = (if disableASLRPtr fl then disableASLR env w2
                               else if enableASLRPtr fl then enableASLR env w2
                               else w2)
                     in showStatus env w3)))"

subsection \<open>What a run shows\<close>

fun printed :: "event list \<Rightarrow> string list" where
  "printed [] = []"
| "printed (Printed s # es) = s # printed es"
| "printed (Invoked f a # es) = printed es"

fun invoked :: "event list \<Rightarrow> (feature \<times> action) list" where
  "invoked [] = []"
| "invoked (Printed s # es) = invoked es"
| "invoked (Invoked f a # es) = (f, a) # invoked es"

text \<open>The pieces of text printed, their concatenation (standard output), the feature
  operations called, and among these the mutating ones and the status queries.\<close>

definition prints :: "'hw world \<Rightarrow> string list" where
  "prints w = printed (trace w)"

definition stdout :: "'hw world \<Rightarrow> string" where
  "stdout w = concat (prints w)"

definition calls :: "'hw world \<Rightarrow> (feature \<times> action) list" where
  "calls w = invoked (trace w)"

definition mutations :: "'hw world \<Rightarrow> (feature \<times> action) list" where
  "mutations w = filter (\<lambda>c. snd c \<noteq> Enabled) (calls w)"

definition queries :: "'hw world \<Rightarrow> (feature \<times> action) list" where
  "queries w = filter (\<lambda>c. snd c = Enabled) (calls w)"

subsection \<open>Vocabulary of the properties\<close>

text \<open>The text that follows the announcement of a mutating action: the outcome.\<close>

definition outcome :: "error option \<Rightarrow> string" where
  "outcome r = (case r of None \<Rightarrow> ''SUCCESS'' | Some e \<Rightarrow> ''oops: '' @ e) @ nl"

text \<open>The sentence reporting the answer of a status query; the feature is named in two
  ways, as the subject of the sentence and inside the error report.\<close>

definition status_text :: "string \<Rightarrow> string \<Rightarrow> bool \<times> error option \<Rightarrow> string" where
  "status_text subject object r =
     (case snd r of
        None \<Rightarrow> subject @ (if fst r then '' is ENABLED.'' else '' is DISABLED.'')
      | Some e \<Rightarrow> ''Error while obtaining status of '' @ object @ '': '' @ e)"

text \<open>A mutating action announces itself, calls its one operation, and prints the outcome:
  from \<open>w\<close> to \<open>w'\<close> standard output grows by exactly one line
  \<open><Action>:   SUCCESS\<close> or \<open><Action>:   oops: <error>\<close>, and the calls by \<open>c\<close>.\<close>

definition announces ::
  "string \<Rightarrow> feature \<times> action \<Rightarrow> error option \<Rightarrow> 'hw world \<Rightarrow> 'hw world \<Rightarrow> bool" where
  "announces act c r w w' \<longleftrightarrow>
     stdout w' = stdout w @ act @ '':   '' @ outcome r \<and> calls w' = calls w @ [c]"

text \<open>What a pair of flags asks for on the flag-driven path: the disable flag is looked at
  first.\<close>

definition chosen :: "bool \<Rightarrow> bool \<Rightarrow> action list" where
  "chosen disablePtr enablePtr =
     (if disablePtr then [Disable] else if enablePtr then [Enable] else [])"

text \<open>The three queries of the status report, in the order it makes them.\<close>

definition status_queries :: "(feature \<times> action) list" where
  "status_queries = [(FeatC6, Enabled), (FeatASLR, Enabled), (FeatBoosting, Enabled)]"

text \<open>A printed line is a status line of a feature when it is one of the two verdicts or
  an error report about that feature.\<close>

definition is_status_of :: "string \<Rightarrow> string \<Rightarrow> string \<Rightarrow> bool" where
  "is_status_of subject object line \<longleftrightarrow>
     line = subject @ '' is ENABLED.'' @ nl \<or>
     line = subject @ '' is DISABLED.'' @ nl \<or>
     (prefix (''Error while obtaining status of '' @ object @ '': '') line \<and> suffix nl line)"

text \<open>The last three pieces printed are the status lines of C6, ASLR and boosting, the
  first of them after an empty line.\<close>

definition ends_with_status :: "string list \<Rightarrow> bool" where
  "ends_with_status ps =
     (case rev ps of
        b # a # c # _ \<Rightarrow>
          prefix nl c \<and> is_status_of ''C6 C-state'' ''C6 C-state'' (drop 1 c) \<and>
          is_status_of ''ASLR'' ''ASLR'' a \<and>
          is_status_of ''Processor boosting'' ''processor boosting'' b
      | _ \<Rightarrow> False)"

text \<open>The mutating actions applied to one feature, in order.\<close>

definition mutations_of :: "feature \<Rightarrow> 'hw world \<Rightarrow> action list" where
  "mutations_of f w = map snd (filter (\<lambda>c. fst c = f) (mutations w))"

text \<open>The run takes the configuration-file path: the command line is accepted and names a
  configuration file.\<close>

definition on_config_path :: "('hw, 'md) env \<Rightarrow> bool" where
  "on_config_path env =
     (case flag_Parse env of None \<Rightarrow> False | Some fl \<Rightarrow> configFilePtr fl \<noteq> [])"

text \<open>The configuration file can be read and its contents decode.\<close>

definition config_loads :: "('hw, 'md) env \<Rightarrow> string \<Rightarrow> bool" where
  "config_loads env configFile =
     (case ioutil_ReadFile env configFile of
        Inl _ \<Rightarrow> False
      | Inr buf \<Rightarrow> (case toml_Decode env buf of Inl _ \<Rightarrow> False | Inr _ \<Rightarrow> True))"

text \<open>What the value of a configuration field asks for, in the words of the
  specification: \<open>enable\<close> or \<open>disable\<close> after case folding, anything else nothing.\<close>

definition requested :: "('hw, 'md) env \<Rightarrow> string \<Rightarrow> action list" where
  "requested env v =
     (if strings_ToLower env v = ''enable'' then [Enable]
      else if strings_ToLower env v = ''disable'' then [Disable]
      else [])"

subsection \<open>A machine to run the program on\<close>

text \<open>
  A test double: a hardware state of three switches, operations that set and read them
  without failing, a root user on a Zen processor, and one configuration file,
  \<open>/etc/ryzen-stabilizator.toml\<close>, that asks to enable boosting and to disable C6.
  Its \<open>%q\<close> puts a string between double quotes, which is what Go prints for the
  paths used below (printable ASCII, no quote, no backslash); its Unicode mapping is
  never reached, every string below being ASCII.
\<close>

record machine =
  c6_on :: bool
  boost_on :: bool
  aslr_on :: bool

definition factory :: machine where
  "factory = \<lparr>c6_on = True, boost_on = True, aslr_on = True\<rparr>"

definition dq :: "string \<Rightarrow> string" where
  "dq s = CHR 0x22 # s @ [CHR 0x22]"

definition profile :: string where
  "profile = ''boosting = '' @ dq ''enable'' @ nl @ ''c6 = '' @ dq ''disable'' @ nl"

definition no_flags :: flags where
  "no_flags =
     \<lparr>configFilePtr = [], enableC6Ptr = False, disableC6Ptr = False,
      enableBoostingPtr = False, disableBoostingPtr = False,
      enableASLRPtr = False, disableASLRPtr = False\<rparr>"

definition zen :: "(machine, string list) env" where
  "zen =
     \<lparr>cpuid_VendorID = AMD, cpuid_Family = 23, os_Geteuid = 0,
      flag_Parse = Some no_flags,
      ioutil_ReadFile =
        (\<lambda>p. if p = ''/etc/ryzen-stabilizator.toml'' then Inr profile
             else Inl (''open '' @ p @ '': no such file or directory'')),
      toml_Decode =
        (\<lambda>buf. if buf = profile
               then Inr ([''boosting'', ''c6''],
                         \<lparr>C6 = ''disable'', Boosting = ''enable'', ASLR = []\<rparr>)
               else Inl ''bare keys cannot contain that character''),
      unicode_ToLower = (\<lambda>s. s),
      fmt_q = dq,
      c6_Enable = (\<lambda>m. (None, m\<lparr>c6_on := True\<rparr>)),
      c6_Disable = (\<lambda>m. (None, m\<lparr>c6_on := False\<rparr>)),
      c6_Enabled = (\<lambda>m. ((c6_on m, None), m)),
      boosting_Enable = (\<lambda>m. (None, m\<lparr>boost_on := True\<rparr>)),
      boosting_Disable = (\<lambda>m. (None, m\<lparr>boost_on := False\<rparr>)),
      boosting_Enabled = (\<lambda>m. ((boost_on m, None), m)),
      aslr_Enable = (\<lambda>m. (None, m\<lparr>aslr_on := True\<rparr>)),
      aslr_Disable = (\<lambda>m. (None, m\<lparr>aslr_on := False\<rparr>)),
      aslr_Enabled = (\<lambda>m. ((aslr_on m, None), m))\<rparr>"

section \<open>Properties\<close>

subsection \<open>Effects of the building blocks\<close>

lemma printed_append: "printed (xs @ ys) = printed xs @ printed ys"
  by (induction xs rule: printed.induct) simp_all

lemma invoked_append: "invoked (xs @ ys) = invoked xs @ invoked ys"
  by (induction xs rule: invoked.induct) simp_all

lemmas observe_defs =
  prints_def calls_def mutations_def queries_def mutations_of_def stdout_def

lemma Printf_effect:
  "hw (Printf s w) = hw w" "trace (Printf s w) = trace w @ [Printed s]"
  by (simp_all add: Printf_def)

lemma toggle_trace:
  "trace (disableC6 env w) = trace w @ [Printed ''Disabling C6 C-state:   '',
     Invoked FeatC6 Disable, Printed (outcome (fst (c6_Disable env (hw w))))]"
  "trace (enableC6 env w) = trace w @ [Printed ''Enabling C6 C-state:   '',
     Invoked FeatC6 Enable, Printed (outcome (fst (c6_Enable env (hw w))))]"
  "trace (disableBoosting env w) = trace w @ [Printed ''Disabling processor boosting:   '',
     Invoked FeatBoosting Disable, Printed (outcome (fst (boosting_Disable env (hw w))))]"
  "trace (enableBoosting env w) = trace w @ [Printed ''Enabling processor boosting:   '',
     Invoked FeatBoosting Enable, Printed (outcome (fst (boosting_Enable env (hw w))))]"
  "trace (disableASLR env w) = trace w @
     [Printed ''Disabling address space layout randomization (ASLR):   '',
      Invoked FeatASLR Disable, Printed (outcome (fst (aslr_Disable env (hw w))))]"
  "trace (enableASLR env w) = trace w @
     [Printed ''Enabling address space layout randomization (ASLR):   '',
      Invoked FeatASLR Enable, Printed (outcome (fst (aslr_Enable env (hw w))))]"
  by (auto simp add: disableC6_def enableC6_def disableBoosting_def enableBoosting_def
      disableASLR_def enableASLR_def outcome_def Let_def invoke_def Printf_def Println_def
      split: prod.splits option.splits)

lemma toggle_hw:
  "hw (disableC6 env w) = snd (c6_Disable env (hw w))"
  "hw (enableC6 env w) = snd (c6_Enable env (hw w))"
  "hw (disableBoosting env w) = snd (boosting_Disable env (hw w))"
  "hw (enableBoosting env w) = snd (boosting_Enable env (hw w))"
  "hw (disableASLR env w) = snd (aslr_Disable env (hw w))"
  "hw (enableASLR env w) = snd (aslr_Enable env (hw w))"
  by (auto simp add: disableC6_def enableC6_def disableBoosting_def enableBoosting_def
      disableASLR_def enableASLR_def Let_def invoke_def Printf_def Println_def
      split: prod.splits option.splits)

lemma showStatus_trace:
  "trace (showStatus env w) = trace w @
     (let r1 = c6_Enabled env (hw w);
          r2 = aslr_Enabled env (snd r1);
          r3 = boosting_Enabled env (snd r2)
      in [Invoked FeatC6 Enabled,
          Printed (nl @ status_text ''C6 C-state'' ''C6 C-state'' (fst r1) @ nl),
          Invoked FeatASLR Enabled,
          Printed (status_text ''ASLR'' ''ASLR'' (fst r2) @ nl),
          Invoked FeatBoosting Enabled,
          Printed (status_text ''Processor boosting'' ''processor boosting'' (fst r3) @ nl)])"
  by (simp add: showStatus_def invoke_def Printf_def Println_def status_text_def Let_def
      split: prod.splits option.splits)

lemma showStatus_hw:
  "hw (showStatus env w) =
     snd (boosting_Enabled env (snd (aslr_Enabled env (snd (c6_Enabled env (hw w))))))"
  by (simp add: showStatus_def invoke_def Printf_def Println_def Let_def
      split: prod.splits option.splits)

lemmas run_simps =
  toggle_trace toggle_hw showStatus_trace showStatus_hw Printf_effect
  printed_append invoked_append

text \<open>Unfolding the program on the test double.\<close>

lemmas zen_simps =
  zen_def no_flags_def factory_def sanityCheck_def amdZenFamily_def main_def
  handleConfigurationFile_def Let_def strings_ToLower_def isASCII_def ascii_lower_def
  char_of_def bit_Suc_0_iff

text \<open>The environment reaches the actions only through the operations they call.\<close>

lemmas action_defs =
  showStatus_def disableC6_def enableC6_def disableBoosting_def enableBoosting_def
  disableASLR_def enableASLR_def strings_ToLower_def

lemma actions_ignore_flags:
  "disableC6 (env\<lparr>flag_Parse := x\<rparr>) = disableC6 env"
  "enableC6 (env\<lparr>flag_Parse := x\<rparr>) = enableC6 env"
  "disableBoosting (env\<lparr>flag_Parse := x\<rparr>) = disableBoosting env"
  "enableBoosting (env\<lparr>flag_Parse := x\<rparr>) = enableBoosting env"
  "disableASLR (env\<lparr>flag_Parse := x\<rparr>) = disableASLR env"
  "enableASLR (env\<lparr>flag_Parse := x\<rparr>) = enableASLR env"
  "showStatus (env\<lparr>flag_Parse := x\<rparr>) = showStatus env"
  "strings_ToLower (env\<lparr>flag_Parse := x\<rparr>) = strings_ToLower env"
  by (simp_all add: fun_eq_iff action_defs)


subsection \<open>The status report always has its three lines\<close>

lemma status_text_is_status: "is_status_of subject object (status_text subject object r @ nl)"
proof (cases "snd r")
  case None
  then show ?thesis by (simp add: is_status_of_def status_text_def)
next
  case (Some e)
  let ?head = "''Error while obtaining status of '' @ object @ '': ''"
  have line: "status_text subject object r @ nl = ?head @ e @ nl"
    using Some by (simp add: status_text_def)
  have "prefix ?head (?head @ e @ nl)"
    by (rule prefixI) (rule refl)
  moreover have "suffix nl (?head @ e @ nl)"
    by (rule suffixI [of _ "?head @ e"]) simp
  ultimately show ?thesis
    unfolding is_status_of_def line by blast
qed

lemma nl_head: "prefix nl (nl @ x)" "drop (Suc 0) (nl @ x) = x"
  by (simp_all add: nl_def)

lemma ends_with_status_report:
  "ends_with_status (ps @
     [nl @ status_text ''C6 C-state'' ''C6 C-state'' r1 @ nl,
      status_text ''ASLR'' ''ASLR'' r2 @ nl,
      status_text ''Processor boosting'' ''processor boosting'' r3 @ nl])"
  unfolding ends_with_status_def
  by (simp add: status_text_is_status nl_head del: drop_append)


subsection \<open>The calls of a run, path by path\<close>

lemma start_calls: "calls (Printf s \<lparr>hw = h, trace = []\<rparr>) = []"
  by (simp add: calls_def Printf_def)

lemma calls_no_run:
  "sanityCheck env = Some e \<Longrightarrow> calls (main env h) = []"
  "sanityCheck env = None \<Longrightarrow> flag_Parse env = None \<Longrightarrow> calls (main env h) = []"
  by (simp_all add: main_def Let_def calls_def Printf_def)

lemma calls_flag_path:
  assumes "sanityCheck env = None" "flag_Parse env = Some fl" "configFilePtr fl = []"
  shows "calls (main env h) =
           map (Pair FeatC6) (chosen (disableC6Ptr fl) (enableC6Ptr fl)) @
           map (Pair FeatBoosting) (chosen (disableBoostingPtr fl) (enableBoostingPtr fl)) @
           map (Pair FeatASLR) (chosen (disableASLRPtr fl) (enableASLRPtr fl)) @
           status_queries"
  using assms
  by (simp add: main_def Let_def chosen_def status_queries_def calls_def run_simps)

lemma mutations_flag_path:
  assumes "sanityCheck env = None" "flag_Parse env = Some fl" "configFilePtr fl = []"
  shows "mutations (main env h) =
           map (Pair FeatC6) (chosen (disableC6Ptr fl) (enableC6Ptr fl)) @
           map (Pair FeatBoosting) (chosen (disableBoostingPtr fl) (enableBoostingPtr fl)) @
           map (Pair FeatASLR) (chosen (disableASLRPtr fl) (enableASLRPtr fl))"
    and "queries (main env h) = status_queries"
  unfolding mutations_def queries_def calls_flag_path [OF assms]
  by (simp_all add: chosen_def status_queries_def)

lemma calls_handleConfigurationFile:
  assumes "ioutil_ReadFile env configFile = Inr buf" "toml_Decode env buf = Inr (md, settings)"
  shows "calls (handleConfigurationFile env configFile w) =
           calls w @
           map (Pair FeatBoosting) (requested env (Boosting settings)) @
           map (Pair FeatC6) (requested env (C6 settings)) @
           map (Pair FeatASLR) (requested env (ASLR settings)) @
           status_queries"
  using assms
  by (simp add: handleConfigurationFile_def Let_def requested_def status_queries_def
      calls_def run_simps)

lemma mutations_handleConfigurationFile:
  assumes "ioutil_ReadFile env configFile = Inr buf" "toml_Decode env buf = Inr (md, settings)"
  shows "mutations (handleConfigurationFile env configFile w) =
           mutations w @
           map (Pair FeatBoosting) (requested env (Boosting settings)) @
           map (Pair FeatC6) (requested env (C6 settings)) @
           map (Pair FeatASLR) (requested env (ASLR settings))"
    and "queries (handleConfigurationFile env configFile w) = queries w @ status_queries"
  unfolding mutations_def queries_def calls_handleConfigurationFile [OF assms]
  by (simp_all add: requested_def status_queries_def)

lemma handleConfigurationFile_fails:
  assumes "\<not> config_loads env configFile"
  shows "calls (handleConfigurationFile env configFile w) = calls w"
    and "hw (handleConfigurationFile env configFile w) = hw w"
  using assms
  by (simp_all add: handleConfigurationFile_def config_loads_def calls_def run_simps
      split: sum.splits)

lemma main_config_path:
  assumes "sanityCheck env = None" "flag_Parse env = Some fl" "configFilePtr fl \<noteq> []"
  shows "main env h =
           handleConfigurationFile env (configFilePtr fl) (Printf banner \<lparr>hw = h, trace = []\<rparr>)"
  using assms by (simp add: main_def Let_def)

text \<open>The five ways a run can go.\<close>

lemma main_cases:
  obtains (gate) e where "sanityCheck env = Some e"
  | (usage) "sanityCheck env = None" "flag_Parse env = None"
  | (flags) fl where "sanityCheck env = None" "flag_Parse env = Some fl" "configFilePtr fl = []"
  | (unloadable) fl where "sanityCheck env = None" "flag_Parse env = Some fl"
      "configFilePtr fl \<noteq> []" "\<not> config_loads env (configFilePtr fl)"
  | (config) fl buf md settings where "sanityCheck env = None" "flag_Parse env = Some fl"
      "configFilePtr fl \<noteq> []" "ioutil_ReadFile env (configFilePtr fl) = Inr buf"
      "toml_Decode env buf = Inr (md, settings)"
proof (cases "sanityCheck env")
  case (Some e)
  then show ?thesis by (rule gate)
next
  case None
  note ok = this
  show ?thesis
  proof (cases "flag_Parse env")
    case None
    with ok show ?thesis by (rule usage)
  next
    case (Some fl)
    show ?thesis
    proof (cases "configFilePtr fl = []")
      case True
      with ok Some show ?thesis by (rule flags)
    next
      case False
      show ?thesis
      proof (cases "config_loads env (configFilePtr fl)")
        case True
        then obtain buf md settings where
          "ioutil_ReadFile env (configFilePtr fl) = Inr buf"
          "toml_Decode env buf = Inr (md, settings)"
          by (auto simp add: config_loads_def split: sum.splits)
        with ok Some False show ?thesis by (rule config)
      next
        case no: False
        with ok Some False show ?thesis by (rule unloadable)
      qed
    qed
  qed
qed


lemma sanityCheck_ignores_flags: "sanityCheck (env\<lparr>flag_Parse := x\<rparr>) = sanityCheck env"
  by (simp add: sanityCheck_def)

lemma handler_ignores_flags:
  "handleConfigurationFile (env\<lparr>flag_Parse := x\<rparr>) configFile w =
   handleConfigurationFile env configFile w"
  by (simp add: handleConfigurationFile_def actions_ignore_flags Let_def
      split: sum.splits prod.splits)




subsection \<open>The gate\<close>

lemma fmt_d_Zen: "fmt_d amdZenFamily = ''23''"
  by (simp add: fmt_d_def decimal.simps digit_def amdZenFamily_def)

lemma family_message_contains:
  fixes x :: string
  defines "m \<equiv> ''wrong family of AMD processors; expected 23 (17h), got '' @ x"
  shows "sublist (fmt_d amdZenFamily) m" and "sublist x m"
proof -
  have "m = ''wrong family of AMD processors; expected '' @ ''23'' @ ('' (17h), got '' @ x)"
    by (simp add: m_def)
  then show "sublist (fmt_d amdZenFamily) m"
    unfolding fmt_d_Zen by (simp only: sublist_appendI)
  have "m = ''wrong family of AMD processors; expected 23 (17h), got '' @ x @ []"
    by (simp add: m_def)
  then show "sublist x m"
    by (simp only: sublist_appendI)
qed

text \<open>
  Claim C1. \<open>sanityCheck\<close> fails with the wrong-vendor error whenever the vendor is not AMD;
  with the wrong-family error whenever the vendor is AMD and the family is not 0x17, and
  that message contains the expected family (23, also written 17h) and the actual family,
  both in decimal; with the insufficient-privilege error whenever vendor and family are
  right and the effective user id is not 0; and it succeeds exactly when the vendor is
  AMD, the family is 0x17 and the effective user id is 0.
\<close>

theorem sanityCheck_gate:
  "(cpuid_VendorID env \<noteq> AMD \<longrightarrow>
      sanityCheck env = Some ''this is not an AMD processor'')
 \<and> (cpuid_VendorID env = AMD \<and> cpuid_Family env \<noteq> 0x17 \<longrightarrow>
      (let m = ''wrong family of AMD processors; expected 23 (17h), got ''
               @ fmt_d (cpuid_Family env)
       in sanityCheck env = Some m \<and> sublist (fmt_d 0x17) m
          \<and> sublist (fmt_d (cpuid_Family env)) m))
 \<and> (cpuid_VendorID env = AMD \<and> cpuid_Family env = 0x17 \<and> os_Geteuid env \<noteq> 0 \<longrightarrow>
      sanityCheck env = Some ''you need to be root to use this program'')
 \<and> (sanityCheck env = None \<longleftrightarrow>
      cpuid_VendorID env = AMD \<and> cpuid_Family env = 0x17 \<and> os_Geteuid env = 0)"
  using family_message_contains [of "fmt_d (cpuid_Family env)"]
  by (simp add: sanityCheck_def amdZenFamily_def Let_def)

text \<open>The gate on an Intel processor, on an AMD family 15h processor, for an ordinary
  user on a Zen processor, and for root on a Zen processor.\<close>

theorem sanityCheck_gate_witness:
  "sanityCheck (zen\<lparr>cpuid_VendorID := Intel\<rparr>) = Some ''this is not an AMD processor''
 \<and> sanityCheck (zen\<lparr>cpuid_Family := 21\<rparr>) =
      Some ''wrong family of AMD processors; expected 23 (17h), got 21''
 \<and> sublist ''23'' ''wrong family of AMD processors; expected 23 (17h), got 21''
 \<and> sublist ''21'' ''wrong family of AMD processors; expected 23 (17h), got 21''
 \<and> sanityCheck (zen\<lparr>os_Geteuid := 1000\<rparr>) = Some ''you need to be root to use this program''
 \<and> sanityCheck zen = None"
  using sanityCheck_gate [of "zen\<lparr>cpuid_VendorID := Intel\<rparr>"]
    sanityCheck_gate [of "zen\<lparr>cpuid_Family := 21\<rparr>"]
    sanityCheck_gate [of "zen\<lparr>os_Geteuid := 1000\<rparr>"]
    sanityCheck_gate [of zen]
  by (simp add: zen_def fmt_d_def decimal.simps digit_def Let_def)

text \<open>
  Claim C2. In every run in which \<open>sanityCheck\<close> returns an error, the program calls no
  operation of \<open>c6\<close>, \<open>boosting\<close> or \<open>aslr\<close> at all (no enable, no disable, no status
  query), leaves the hardware as it found it, and ends after printing the banner and the
  error message.
\<close>

theorem gate_failure_aborts:
  assumes "sanityCheck env = Some e"
  shows "calls (main env h) = [] \<and> hw (main env h) = h
       \<and> prints (main env h) = [banner, ''Error: '' @ e @ ''.'' @ nl]"
  using assms by (simp add: main_def Let_def Printf_def observe_defs)

text \<open>An ordinary user on a Zen machine: the run prints two pieces and touches nothing.\<close>

theorem gate_failure_aborts_witness:
  "sanityCheck (zen\<lparr>os_Geteuid := 1000\<rparr>) = Some ''you need to be root to use this program''
 \<and> calls (main (zen\<lparr>os_Geteuid := 1000\<rparr>) factory) = []
 \<and> hw (main (zen\<lparr>os_Geteuid := 1000\<rparr>) factory) = factory
 \<and> prints (main (zen\<lparr>os_Geteuid := 1000\<rparr>) factory) =
      [banner, ''Error: you need to be root to use this program.'' @ nl]"
proof -
  have g: "sanityCheck (zen\<lparr>os_Geteuid := 1000\<rparr>) =
             Some ''you need to be root to use this program''"
    by (simp add: sanityCheck_def zen_def amdZenFamily_def)
  show ?thesis
    using g gate_failure_aborts [OF g, of factory] by simp
qed

subsection \<open>The order of the actions\<close>

text \<open>
  Claim C3, as amended. In every run all mutating operations come before all status
  queries. On the configuration-file path the mutating operations are applied in the
  order boosting, C6, ASLR; on the flag-driven path in the order C6, boosting, ASLR.
\<close>

theorem mutation_order:
  "calls (main env h) = mutations (main env h) @ queries (main env h)
 \<and> subseq (map fst (mutations (main env h)))
      (if on_config_path env then [FeatBoosting, FeatC6, FeatASLR]
       else [FeatC6, FeatBoosting, FeatASLR])"
proof (cases env rule: main_cases)
  case (gate e)
  then show ?thesis by (simp add: calls_no_run mutations_def queries_def)
next
  case usage
  then show ?thesis by (simp add: calls_no_run mutations_def queries_def)
next
  case (flags fl)
  have "\<not> on_config_path env"
    using flags by (simp add: on_config_path_def)
  then show ?thesis
    by (simp add: mutations_flag_path [OF flags] calls_flag_path [OF flags] chosen_def)
next
  case (unloadable fl)
  then show ?thesis
    by (simp add: main_config_path handleConfigurationFile_fails start_calls
        mutations_def queries_def)
next
  case (config fl buf md settings)
  have "on_config_path env"
    using config by (simp add: on_config_path_def)
  then show ?thesis
    using config
    by (simp add: main_config_path mutations_handleConfigurationFile [OF config(4,5)]
        calls_handleConfigurationFile [OF config(4,5)] start_calls mutations_def [of "Printf _ _"]
        queries_def [of "Printf _ _"] requested_def)
qed

text \<open>The calls of two runs on the test double: with \<open>--disable-c6 --disable-boosting\<close>,
  and with \<open>--config /etc/ryzen-stabilizator.toml\<close>.\<close>

theorem mutation_order_witness:
  "calls (main (zen\<lparr>flag_Parse :=
       Some (no_flags\<lparr>disableC6Ptr := True, disableBoostingPtr := True\<rparr>)\<rparr>) factory) =
     [(FeatC6, Disable), (FeatBoosting, Disable),
      (FeatC6, Enabled), (FeatASLR, Enabled), (FeatBoosting, Enabled)]
 \<and> calls (main (zen\<lparr>flag_Parse := Some (no_flags\<lparr>configFilePtr :=
       ''/etc/ryzen-stabilizator.toml''\<rparr>)\<rparr>) factory) =
     [(FeatBoosting, Enable), (FeatC6, Disable),
      (FeatC6, Enabled), (FeatASLR, Enabled), (FeatBoosting, Enabled)]"
  using mutation_order [of "zen\<lparr>flag_Parse :=
       Some (no_flags\<lparr>disableC6Ptr := True, disableBoostingPtr := True\<rparr>)\<rparr>" factory]
    mutation_order [of "zen\<lparr>flag_Parse := Some (no_flags\<lparr>configFilePtr :=
       ''/etc/ryzen-stabilizator.toml''\<rparr>)\<rparr>" factory]
  by (simp add: zen_simps mutations_def queries_def calls_def run_simps profile_def dq_def nl_def)

text \<open>With the order boosting, C6, ASLR demanded of the flag-driven path too, the
  statement fails: \<open>--disable-c6 --disable-boosting\<close> disables C6 first.\<close>

theorem flag_path_order_counterexample:
  "mutations (main (zen\<lparr>flag_Parse :=
       Some (no_flags\<lparr>disableC6Ptr := True, disableBoostingPtr := True\<rparr>)\<rparr>) factory) =
     [(FeatC6, Disable), (FeatBoosting, Disable)]
 \<and> \<not> subseq (map fst (mutations (main (zen\<lparr>flag_Parse :=
       Some (no_flags\<lparr>disableC6Ptr := True, disableBoostingPtr := True\<rparr>)\<rparr>) factory)))
       [FeatBoosting, FeatC6, FeatASLR]"
  by (simp add: zen_simps mutations_def calls_def run_simps)

subsection \<open>The status report at the end of a run\<close>




subsection \<open>The configuration file against the flags\<close>

text \<open>
  Claim C5. When \<open>--config\<close> is given a non-empty path, the six enable and disable flags
  have no influence: two command lines that name the same configuration file give the
  same run (the same output, the same calls in the same order, the same final hardware
  state), whatever their other flags.
\<close>

theorem config_overrides_flags:
  assumes "configFilePtr fl \<noteq> []" "configFilePtr fl' = configFilePtr fl"
  shows "main (env\<lparr>flag_Parse := Some fl'\<rparr>) h = main (env\<lparr>flag_Parse := Some fl\<rparr>) h"
proof (cases "sanityCheck env")
  case None
  then show ?thesis
    using assms
    by (simp add: main_config_path sanityCheck_ignores_flags handler_ignores_flags)
next
  case (Some e)
  then show ?thesis
    by (simp add: main_def sanityCheck_ignores_flags)
qed

text \<open>The scenario of the specification: the file asks to enable boosting and to disable
  C6, the command line adds \<open>--disable-boosting\<close>. Boosting is enabled, C6 is disabled,
  ASLR is not touched.\<close>

theorem config_overrides_flags_witness:
  "main (zen\<lparr>flag_Parse := Some (no_flags\<lparr>configFilePtr := ''/etc/ryzen-stabilizator.toml'',
      disableBoostingPtr := True\<rparr>)\<rparr>) factory =
   main (zen\<lparr>flag_Parse :=
      Some (no_flags\<lparr>configFilePtr := ''/etc/ryzen-stabilizator.toml''\<rparr>)\<rparr>) factory
 \<and> mutations (main (zen\<lparr>flag_Parse :=
      Some (no_flags\<lparr>configFilePtr := ''/etc/ryzen-stabilizator.toml'',
        disableBoostingPtr := True\<rparr>)\<rparr>) factory) =
     [(FeatBoosting, Enable), (FeatC6, Disable)]
 \<and> hw (main (zen\<lparr>flag_Parse :=
      Some (no_flags\<lparr>configFilePtr := ''/etc/ryzen-stabilizator.toml'',
        disableBoostingPtr := True\<rparr>)\<rparr>) factory) =
     \<lparr>c6_on = False, boost_on = True, aslr_on = True\<rparr>"
proof -
  let ?p = "''/etc/ryzen-stabilizator.toml''"
  let ?fl = "no_flags\<lparr>configFilePtr := ?p\<rparr>"
  let ?fl' = "no_flags\<lparr>configFilePtr := ?p, disableBoostingPtr := True\<rparr>"
  have 1: "configFilePtr ?fl \<noteq> []" by simp
  have 2: "configFilePtr ?fl' = configFilePtr ?fl" by simp
  have m: "mutations (main (zen\<lparr>flag_Parse := Some ?fl\<rparr>) factory) =
             [(FeatBoosting, Enable), (FeatC6, Disable)]"
    by (simp add: zen_simps mutations_def calls_def run_simps)
  have s: "hw (main (zen\<lparr>flag_Parse := Some ?fl\<rparr>) factory) =
             \<lparr>c6_on = False, boost_on = True, aslr_on = True\<rparr>"
    by (simp add: zen_simps run_simps)
  show ?thesis
    using config_overrides_flags [OF 1 2, of zen factory] m s by simp
qed

subsection \<open>The fields of the configuration file\<close>



subsection \<open>The outcome line of a mutating action\<close>

lemma announcesI:
  "trace w' = trace w @ [Printed (act @ '':   ''), Invoked (fst c) (snd c), Printed (outcome r)]
   \<Longrightarrow> announces act c r w w'"
  by (cases c) (simp add: announces_def observe_defs printed_append invoked_append)

text \<open>
  Claim C7. Each of the six mutating actions calls its one operation and adds exactly one
  line to standard output: \<open><Action>:   SUCCESS\<close> when the operation returns no error,
  \<open><Action>:   oops: <error>\<close> when it returns one.
\<close>

theorem outcome_line_printed:
  "announces ''Disabling C6 C-state'' (FeatC6, Disable)
     (fst (c6_Disable env (hw w))) w (disableC6 env w)
 \<and> announces ''Enabling C6 C-state'' (FeatC6, Enable)
     (fst (c6_Enable env (hw w))) w (enableC6 env w)
 \<and> announces ''Disabling processor boosting'' (FeatBoosting, Disable)
     (fst (boosting_Disable env (hw w))) w (disableBoosting env w)
 \<and> announces ''Enabling processor boosting'' (FeatBoosting, Enable)
     (fst (boosting_Enable env (hw w))) w (enableBoosting env w)
 \<and> announces ''Disabling address space layout randomization (ASLR)'' (FeatASLR, Disable)
     (fst (aslr_Disable env (hw w))) w (disableASLR env w)
 \<and> announces ''Enabling address space layout randomization (ASLR)'' (FeatASLR, Enable)
     (fst (aslr_Enable env (hw w))) w (enableASLR env w)"
  by (intro conjI announcesI) (simp_all add: toggle_trace)

text \<open>Disabling C6 on the test double, and on one whose \<open>c6.Disable\<close> fails.\<close>

theorem outcome_line_printed_witness:
  "stdout (disableC6 zen \<lparr>hw = factory, trace = []\<rparr>) =
     ''Disabling C6 C-state:   SUCCESS'' @ nl
 \<and> stdout (disableC6 (zen\<lparr>c6_Disable := \<lambda>m. (Some ''permission denied'', m)\<rparr>)
       \<lparr>hw = factory, trace = []\<rparr>) =
     ''Disabling C6 C-state:   oops: permission denied'' @ nl"
  using outcome_line_printed [of zen "\<lparr>hw = factory, trace = []\<rparr>"]
    outcome_line_printed [of "zen\<lparr>c6_Disable := \<lambda>m. (Some ''permission denied'', m)\<rparr>"
      "\<lparr>hw = factory, trace = []\<rparr>"]
  by (simp add: announces_def zen_def outcome_def observe_defs)

subsection \<open>The status report when queries fail\<close>

text \<open>
  Claim C8. Whatever the three status queries return, \<open>showStatus\<close> makes all three of
  them and prints three lines, for C6, ASLR and boosting in this order; the line of a
  query that returned an error reports that error, and the other lines are the verdicts
  of their own queries.
\<close>

theorem showStatus_never_aborts:
  "prints (showStatus env w) = prints w @
     (let r1 = c6_Enabled env (hw w);
          r2 = aslr_Enabled env (snd r1);
          r3 = boosting_Enabled env (snd r2)
      in [nl @ status_text ''C6 C-state'' ''C6 C-state'' (fst r1) @ nl,
          status_text ''ASLR'' ''ASLR'' (fst r2) @ nl,
          status_text ''Processor boosting'' ''processor boosting'' (fst r3) @ nl])
 \<and> calls (showStatus env w) =
     calls w @ [(FeatC6, Enabled), (FeatASLR, Enabled), (FeatBoosting, Enabled)]
 \<and> ends_with_status (prints (showStatus env w))"
  by (simp add: showStatus_trace observe_defs printed_append invoked_append Let_def
      ends_with_status_report)

text \<open>The report when the query of C6 fails and the two others succeed.\<close>

theorem showStatus_never_aborts_witness:
  "prints (showStatus (zen\<lparr>c6_Enabled := \<lambda>m. ((False, Some ''no msr device''), m)\<rparr>)
      \<lparr>hw = factory, trace = []\<rparr>) =
     [nl @ ''Error while obtaining status of C6 C-state: no msr device'' @ nl,
      ''ASLR is ENABLED.'' @ nl, ''Processor boosting is ENABLED.'' @ nl]"
  using showStatus_never_aborts
    [of "zen\<lparr>c6_Enabled := \<lambda>m. ((False, Some ''no msr device''), m)\<rparr>"
      "\<lparr>hw = factory, trace = []\<rparr>"]
  by (simp add: zen_def factory_def status_text_def observe_defs Let_def)

subsection \<open>Both flags of a feature at once\<close>

text \<open>
  Claim C9. Without \<open>--config\<close>, when both the disable flag and the enable flag of a
  feature are given, the only mutating action applied to that feature is the disable
  action; the enable action is not invoked.
\<close>

theorem disable_wins:
  assumes "sanityCheck env = None" "flag_Parse env = Some fl" "configFilePtr fl = []"
  shows "(disableC6Ptr fl \<and> enableC6Ptr fl \<longrightarrow>
            mutations_of FeatC6 (main env h) = [Disable])
       \<and> (disableBoostingPtr fl \<and> enableBoostingPtr fl \<longrightarrow>
            mutations_of FeatBoosting (main env h) = [Disable])
       \<and> (disableASLRPtr fl \<and> enableASLRPtr fl \<longrightarrow>
            mutations_of FeatASLR (main env h) = [Disable])"
  unfolding mutations_of_def mutations_flag_path [OF assms]
  by (simp add: chosen_def)

text \<open>All six flags at once on the test double.\<close>

theorem disable_wins_witness:
  "mutations (main (zen\<lparr>flag_Parse := Some
      \<lparr>configFilePtr = [], enableC6Ptr = True, disableC6Ptr = True,
       enableBoostingPtr = True, disableBoostingPtr = True,
       enableASLRPtr = True, disableASLRPtr = True\<rparr>\<rparr>) factory) =
     [(FeatC6, Disable), (FeatBoosting, Disable), (FeatASLR, Disable)]
 \<and> mutations_of FeatC6 (main (zen\<lparr>flag_Parse := Some
      \<lparr>configFilePtr = [], enableC6Ptr = True, disableC6Ptr = True,
       enableBoostingPtr = True, disableBoostingPtr = True,
       enableASLRPtr = True, disableASLRPtr = True\<rparr>\<rparr>) factory) = [Disable]
 \<and> mutations_of FeatBoosting (main (zen\<lparr>flag_Parse := Some
      \<lparr>configFilePtr = [], enableC6Ptr = True, disableC6Ptr = True,
       enableBoostingPtr = True, disableBoostingPtr = True,
       enableASLRPtr = True, disableASLRPtr = True\<rparr>\<rparr>) factory) = [Disable]
 \<and> mutations_of FeatASLR (main (zen\<lparr>flag_Parse := Some
      \<lparr>configFilePtr = [], enableC6Ptr = True, disableC6Ptr = True,
       enableBoostingPtr = True, disableBoostingPtr = True,
       enableASLRPtr = True, disableASLRPtr = True\<rparr>\<rparr>) factory) = [Disable]"
proof -
  let ?fl = "\<lparr>configFilePtr = [], enableC6Ptr = True, disableC6Ptr = True,
       enableBoostingPtr = True, disableBoostingPtr = True,
       enableASLRPtr = True, disableASLRPtr = True\<rparr>"
  let ?env = "zen\<lparr>flag_Parse := Some ?fl\<rparr>"
  have g: "sanityCheck ?env = None" by (simp add: zen_simps)
  have f: "flag_Parse ?env = Some ?fl" by simp
  have c: "configFilePtr ?fl = []" by simp
  have m: "mutations (main ?env factory) =
     [(FeatC6, Disable), (FeatBoosting, Disable), (FeatASLR, Disable)]"
    by (simp add: zen_simps mutations_def calls_def run_simps)
  show ?thesis
    using disable_wins [OF g f c, of factory] m by simp
qed

subsection \<open>A configuration file that cannot be used\<close>

text \<open>
  Claim C10. When the file named by \<open>--config\<close> cannot be read, or its contents do not
  decode, the program calls no operation of \<open>c6\<close>, \<open>boosting\<close> or \<open>aslr\<close>, leaves the
  hardware as it found it, and returns after printing the banner and an error message.
\<close>

theorem config_failure_no_mutation:
  assumes "sanityCheck env = None" "flag_Parse env = Some fl" "configFilePtr fl \<noteq> []"
  shows "(ioutil_ReadFile env (configFilePtr fl) = Inl e \<longrightarrow>
            calls (main env h) = [] \<and> hw (main env h) = h \<and>
            prints (main env h) =
              [banner, ''Error: unable to read contents of config file ''
                       @ fmt_q env (configFilePtr fl) @ '': '' @ e @ ''.'' @ nl])
       \<and> (ioutil_ReadFile env (configFilePtr fl) = Inr buf \<and> toml_Decode env buf = Inl e \<longrightarrow>
            calls (main env h) = [] \<and> hw (main env h) = h \<and>
            prints (main env h) =
              [banner, ''Error: problem parsing config file ''
                       @ fmt_q env (configFilePtr fl) @ '': '' @ e @ ''.'' @ nl @ nl])"
  unfolding main_config_path [OF assms]
  by (simp add: handleConfigurationFile_def Printf_def observe_defs)

text \<open>A file that does not exist, and a file that is not TOML.\<close>

theorem config_failure_no_mutation_witness:
  "main (zen\<lparr>flag_Parse := Some (no_flags\<lparr>configFilePtr := ''/nowhere''\<rparr>)\<rparr>) factory =
     \<lparr>hw = factory, trace = [Printed banner,
        Printed (''Error: unable to read contents of config file '' @ dq ''/nowhere''
                 @ '': open /nowhere: no such file or directory.'' @ nl)]\<rparr>
 \<and> main (zen\<lparr>flag_Parse := Some (no_flags\<lparr>configFilePtr := ''/etc/fstab''\<rparr>),
        ioutil_ReadFile := \<lambda>p. Inr ''# /etc/fstab''\<rparr>) factory =
     \<lparr>hw = factory, trace = [Printed banner,
        Printed (''Error: problem parsing config file '' @ dq ''/etc/fstab''
                 @ '': bare keys cannot contain that character.'' @ nl @ nl)]\<rparr>"
proof -
  let ?e1 = "zen\<lparr>flag_Parse := Some (no_flags\<lparr>configFilePtr := ''/nowhere''\<rparr>)\<rparr>"
  let ?e2 = "zen\<lparr>flag_Parse := Some (no_flags\<lparr>configFilePtr := ''/etc/fstab''\<rparr>),
        ioutil_ReadFile := \<lambda>p. Inr ''# /etc/fstab''\<rparr>"
  have g: "sanityCheck ?e1 = None" "sanityCheck ?e2 = None"
    by (simp_all add: zen_simps)
  have n: "configFilePtr (no_flags\<lparr>configFilePtr := ''/nowhere''\<rparr>) \<noteq> []"
    "configFilePtr (no_flags\<lparr>configFilePtr := ''/etc/fstab''\<rparr>) \<noteq> []"
    by simp_all
  have f: "flag_Parse ?e1 = Some (no_flags\<lparr>configFilePtr := ''/nowhere''\<rparr>)"
    "flag_Parse ?e2 = Some (no_flags\<lparr>configFilePtr := ''/etc/fstab''\<rparr>)"
    by simp_all
  have 1: "main ?e1 factory =
     \<lparr>hw = factory, trace = [Printed banner,
        Printed (''Error: unable to read contents of config file '' @ dq ''/nowhere''
                 @ '': open /nowhere: no such file or directory.'' @ nl)]\<rparr>"
    using config_failure_no_mutation [OF g(1) f(1) n(1),
        where e = "''open /nowhere: no such file or directory''" and h = factory]
    by (simp add: zen_simps Printf_def)
  have 2: "main ?e2 factory =
     \<lparr>hw = factory, trace = [Printed banner,
        Printed (''Error: problem parsing config file '' @ dq ''/etc/fstab''
                 @ '': bare keys cannot contain that character.'' @ nl @ nl)]\<rparr>"
    using config_failure_no_mutation [OF g(2) f(2) n(2),
        where e = "''bare keys cannot contain that character''" and h = factory
          and buf = "''# /etc/fstab''"]
    by (simp add: zen_simps Printf_def profile_def dq_def)
  from 1 2 show ?thesis by simp
qed

end
